theory Spec2Isabelle
  imports Main
begin

section \<open>Values decoded from a response body\<close>

text \<open>
  \<^verbatim>\<open>response.json()\<close> yields a JavaScript value built from a JSON text. Object members are
  kept as an association list read with \<open>map_of\<close>; a decoded object has each key once.
  Numbers are doubles in the source; the
  component only ever tests them for truthiness (a number is falsy exactly when it is
  zero), so the embedding keeps an integer payload.
\<close>

datatype json =
    JNull
  | JBool bool
  | JNum int
  | JStr string
  | JArr "json list"
  | JObj "(string \<times> json) list"

datatype js_error = FetchRejected | BodyNotJson | TypeError

text \<open>JavaScript truthiness of a decoded value; \<open>None\<close> stands for \<^verbatim>\<open>undefined\<close>.\<close>

fun truthy :: "json \<Rightarrow> bool" where
  "truthy JNull = False"
| "truthy (JBool b) = b"
| "truthy (JNum n) = (n \<noteq> 0)"
| "truthy (JStr s) = (s \<noteq> [])"
| "truthy (JArr xs) = True"
| "truthy (JObj kvs) = True"

fun truthy_opt :: "json option \<Rightarrow> bool" where
  "truthy_opt None = False"
| "truthy_opt (Some v) = truthy v"

text \<open>
  Member access \<^verbatim>\<open>data.k\<close> for the keys the component reads (\<^verbatim>\<open>success\<close>,
  \<^verbatim>\<open>properties\<close>, \<^verbatim>\<open>response\<close>, \<^verbatim>\<open>property_id\<close>): on \<^verbatim>\<open>null\<close> it throws a TypeError, on
  an object it is the member or \<^verbatim>\<open>undefined\<close>, on any other value it is \<^verbatim>\<open>undefined\<close>.
\<close>

fun get_prop :: "json \<Rightarrow> string \<Rightarrow> js_error + json option" where
  "get_prop JNull k = Inl TypeError"
| "get_prop (JObj kvs) k = Inr (map_of kvs k)"
| "get_prop v k = Inr None"

text \<open>The operator \<^verbatim>\<open>a || d\<close>: \<^verbatim>\<open>a\<close> when it is truthy, \<^verbatim>\<open>d\<close> otherwise.\<close>

fun or_else :: "json option \<Rightarrow> json \<Rightarrow> json" where
  "or_else None d = d"
| "or_else (Some v) d = (if truthy v then v else d)"

section \<open>The PropertySearch component\<close>

text \<open>The body of the remote call: \<^verbatim>\<open>JSON.stringify({query: query, top_k: 5})\<close>.\<close>

record payload =
  query :: string
  top_k :: int

text \<open>
  The five \<^verbatim>\<open>useState\<close> cells of the component, the calls to the query service that have
  been issued and have not settled yet (oldest first), and the queries handed to
  \<^verbatim>\<open>navigate\<close>. \<^verbatim>\<open>properties\<close> and \<^verbatim>\<open>aiResponse\<close> hold whatever value the response carried,
  so they are decoded values, not lists and strings.
\<close>

record app =
  searchQuery :: string
  properties :: json
  loading :: bool
  error :: "string option"
  aiResponse :: json
  inflight :: "payload list"
  navigated :: "string list"

text \<open>
  The state at the first render; the argument is \<^verbatim>\<open>searchParams.get('q')\<close>, \<open>None\<close> when
  the address has no such parameter.
\<close>

definition initial_state :: "string option \<Rightarrow> app" where
  "initial_state q =
     \<lparr> searchQuery = (case q of None \<Rightarrow> [] | Some v \<Rightarrow> (if v \<noteq> [] then v else [])),
       properties = JArr [],
       loading = False,
       error = None,
       aiResponse = JStr [],
       inflight = [],
       navigated = [] \<rparr>"

text \<open>
  \<^verbatim>\<open>searchProperties\<close> up to its first \<^verbatim>\<open>await\<close>: the part that runs synchronously inside
  the caller.
\<close>

definition searchProperties_begin :: "app \<Rightarrow> string \<Rightarrow> app" where
  "searchProperties_begin s q =
     s\<lparr> loading := True,
        error := None,
        inflight := inflight s @ [\<lparr> query = q, top_k = 5 \<rparr>] \<rparr>"

text \<open>
  How the awaited call ends: the \<^verbatim>\<open>fetch\<close> promise rejects, or \<^verbatim>\<open>response.json()\<close> rejects,
  or the body decodes to a value.
\<close>

datatype outcome = Rejected | Undecodable | Decoded json

text \<open>The rest of the \<^verbatim>\<open>try\<close> block, after the awaits.\<close>

definition try_block :: "app \<Rightarrow> outcome \<Rightarrow> js_error + app" where
  "try_block s out =
     (case out of
        Rejected \<Rightarrow> Inl FetchRejected
      | Undecodable \<Rightarrow> Inl BodyNotJson
      | Decoded data \<Rightarrow>
          (case get_prop data ''success'' of
             Inl e \<Rightarrow> Inl e
           | Inr success \<Rightarrow>
               if truthy_opt success then
                 (case get_prop data ''properties'' of
                    Inl e \<Rightarrow> Inl e
                  | Inr ps \<Rightarrow>
                      (case get_prop data ''response'' of
                         Inl e \<Rightarrow> Inl e
                       | Inr r \<Rightarrow>
                           Inr (s\<lparr> properties := or_else ps (JArr []),
                                   aiResponse := or_else r (JStr []) \<rparr>)))
               else Inr (s\<lparr> error := Some ''Failed to fetch properties'' \<rparr>)))"

text \<open>
  The continuation of \<^verbatim>\<open>searchProperties\<close> once its call has ended: \<^verbatim>\<open>try\<close>, then
  \<^verbatim>\<open>catch\<close>, then \<^verbatim>\<open>finally\<close>. \<open>Inl\<close> would be an exception leaving the function.
\<close>

definition searchProperties_settle :: "app \<Rightarrow> outcome \<Rightarrow> js_error + app" where
  "searchProperties_settle s out =
     (case (case try_block s out of
              Inl err \<Rightarrow> Inr (s\<lparr> error := Some ''Error connecting to the server'' \<rparr>)
            | Inr s' \<Rightarrow> Inr s') of
        Inl e \<Rightarrow> Inl e
      | Inr s' \<Rightarrow> Inr (s'\<lparr> loading := False \<rparr>))"

text \<open>\<^verbatim>\<open>handleSearch\<close> of PropertySearch, the form's submit handler.\<close>

definition handleSearch :: "app \<Rightarrow> app" where
  "handleSearch s =
     (if searchQuery s \<noteq> [] then
        (searchProperties_begin s (searchQuery s))
          \<lparr> navigated := navigated s @ [searchQuery s] \<rparr>
      else s)"

text \<open>The effect that runs once after the first render.\<close>

definition mount :: "app \<Rightarrow> app" where
  "mount s = (if searchQuery s \<noteq> [] then searchProperties_begin s (searchQuery s) else s)"

text \<open>
  Which branch the component renders: the loading text, the error text, or the answer
  and the property grid. \<^verbatim>\<open>error ?\<close> is a truthiness test, so an empty string counts as
  no error.
\<close>

datatype view = LoadingView | ErrorView string | ResultsView json json

definition render :: "app \<Rightarrow> view" where
  "render s =
     (if loading s then LoadingView
      else (case error s of
              None \<Rightarrow> ResultsView (aiResponse s) (properties s)
            | Some e \<Rightarrow> (if e \<noteq> [] then ErrorView e
                         else ResultsView (aiResponse s) (properties s))))"

section \<open>String trimming and the AIHomeSearch component\<close>

text \<open>
  \<^verbatim>\<open>String.prototype.trim\<close> removes white space and line terminators from both ends.
  Of those, the characters below are the ones an 8-bit \<open>char\<close> can hold: TAB, LF, VT,
  FF, CR, SPACE and NO-BREAK SPACE.
\<close>

definition is_white_space :: "char \<Rightarrow> bool" where
  "is_white_space c = (c \<in> set [CHR 0x09, CHR 0x0A, CHR 0x0B, CHR 0x0C, CHR 0x0D, CHR 0x20, CHR 0xA0])"

definition trim :: "string \<Rightarrow> string" where
  "trim s = rev (dropWhile is_white_space (rev (dropWhile is_white_space s)))"

text \<open>
  \<^verbatim>\<open>handleSearch\<close> of AIHomeSearch: its state is the text of the input, its only effect a
  navigation; the result is the list of queries navigated to.
\<close>

definition AIHomeSearch_handleSearch :: "string \<Rightarrow> string list \<Rightarrow> string list" where
  "AIHomeSearch_handleSearch text nav = (if trim text \<noteq> [] then nav @ [text] else nav)"

section \<open>Events\<close>

text \<open>
  The component runs on one event loop. Between two events nothing else runs: typing
  into the input, submitting the form, and the settling of the \<open>i\<close>-th outstanding call
  with some outcome, whose continuation runs to its end (the state updates of one
  continuation are taken together; the continuation writes no state between its two
  awaits, so they are one event). Settling a call that does not exist is no event.
  \<^verbatim>\<open>navigate\<close> leads to the route the component is already on, which neither remounts it
  nor runs its mount effect again.
\<close>

datatype event = Change string | Submit | Settle nat outcome

definition remove_nth :: "nat \<Rightarrow> 'a list \<Rightarrow> 'a list" where
  "remove_nth i xs = take i xs @ drop (Suc i) xs"

definition step :: "app \<Rightarrow> event \<Rightarrow> app" where
  "step s e =
     (case e of
        Change text \<Rightarrow> s\<lparr> searchQuery := text \<rparr>
      | Submit \<Rightarrow> handleSearch s
      | Settle i out \<Rightarrow>
          (if i < length (inflight s) then
             (case searchProperties_settle (s\<lparr> inflight := remove_nth i (inflight s) \<rparr>) out of
                Inl err \<Rightarrow> s\<lparr> inflight := remove_nth i (inflight s) \<rparr>
              | Inr s' \<Rightarrow> s')
           else s))"

fun run :: "app \<Rightarrow> event list \<Rightarrow> app" where
  "run s [] = s"
| "run s (e # es) = run (step s e) es"

section \<open>Vocabulary of the specification\<close>

text \<open>
  A call reports success when its body decodes to a value whose \<^verbatim>\<open>success\<close> member is
  truthy; every other outcome is a failure (a falsy or missing indicator, a body that is
  \<^verbatim>\<open>null\<close>, a body that does not decode, a rejected call).
\<close>

definition reports_success :: "outcome \<Rightarrow> bool" where
  "reports_success out =
     (case out of
        Decoded data \<Rightarrow> (case get_prop data ''success'' of Inl e \<Rightarrow> False | Inr v \<Rightarrow> truthy_opt v)
      | _ \<Rightarrow> False)"

text \<open>
  A well-formed successful response: an object whose success indicator is \<^verbatim>\<open>true\<close>, whose
  answer is a string or absent and whose property list is an array or absent. Its answer
  text and its records, as the specification normalises them: absent becomes empty.
\<close>

definition well_formed_success :: "json \<Rightarrow> bool" where
  "well_formed_success data =
     (case data of
        JObj kvs \<Rightarrow>
          map_of kvs ''success'' = Some (JBool True)
          \<and> (case map_of kvs ''response'' of None \<Rightarrow> True | Some (JStr a) \<Rightarrow> True | Some v \<Rightarrow> False)
          \<and> (case map_of kvs ''properties'' of None \<Rightarrow> True | Some (JArr ps) \<Rightarrow> True | Some v \<Rightarrow> False)
      | _ \<Rightarrow> False)"

definition spec_answerText :: "json \<Rightarrow> string" where
  "spec_answerText data =
     (case get_prop data ''response'' of Inr (Some (JStr a)) \<Rightarrow> a | _ \<Rightarrow> [])"

definition spec_records :: "json \<Rightarrow> json list" where
  "spec_records data =
     (case get_prop data ''properties'' of Inr (Some (JArr ps)) \<Rightarrow> ps | _ \<Rightarrow> [])"

text \<open>A record has an identifier when it has a \<^verbatim>\<open>property_id\<close> member (the grid's key).\<close>

definition has_identifier :: "json \<Rightarrow> bool" where
  "has_identifier r = (case get_prop r ''property_id'' of Inr (Some v) \<Rightarrow> True | _ \<Rightarrow> False)"

text \<open>The property that every event keeps: an error is never stored while loading.\<close>

definition no_error_while_loading :: "app \<Rightarrow> bool" where
  "no_error_while_loading s = (\<not> (loading s \<and> error s \<noteq> None) \<and> error s \<noteq> Some [])"

section \<open>Basic facts\<close>

lemma trim_Nil: "trim [] = []"
  by (simp add: trim_def)

lemma settle_transport:
  "searchProperties_settle s Rejected = Inr (s\<lparr> error := Some ''Error connecting to the server'', loading := False \<rparr>)"
  "searchProperties_settle s Undecodable = Inr (s\<lparr> error := Some ''Error connecting to the server'', loading := False \<rparr>)"
  "searchProperties_settle s (Decoded JNull) = Inr (s\<lparr> error := Some ''Error connecting to the server'', loading := False \<rparr>)"
  by (simp_all add: searchProperties_settle_def try_block_def)

lemma get_prop_cases:
  obtains "data = JNull" | kvs where "data = JObj kvs" | "\<forall>k. get_prop data k = Inr None"
  by (cases data) auto

lemma settle_object:
  "searchProperties_settle s (Decoded (JObj kvs)) =
     (if truthy_opt (map_of kvs ''success'')
      then Inr (s\<lparr> properties := or_else (map_of kvs ''properties'') (JArr []),
                   aiResponse := or_else (map_of kvs ''response'') (JStr []),
                   loading := False \<rparr>)
      else Inr (s\<lparr> error := Some ''Failed to fetch properties'', loading := False \<rparr>))"
  by (simp add: searchProperties_settle_def try_block_def)

lemma settle_other:
  "\<forall>k. get_prop data k = Inr None \<Longrightarrow>
   searchProperties_settle s (Decoded data) =
     Inr (s\<lparr> error := Some ''Failed to fetch properties'', loading := False \<rparr>)"
  by (simp add: searchProperties_settle_def try_block_def)

lemma settle_failure:
  assumes "\<not> reports_success out"
  shows "searchProperties_settle s out = Inr (s\<lparr> error := Some ''Failed to fetch properties'', loading := False \<rparr>)
       \<or> searchProperties_settle s out = Inr (s\<lparr> error := Some ''Error connecting to the server'', loading := False \<rparr>)"
proof (cases out)
  case (Decoded data)
  show ?thesis
  proof (cases data rule: get_prop_cases)
    case 1
    with Decoded show ?thesis by (simp add: settle_transport)
  next
    case (2 kvs)
    with Decoded assms show ?thesis by (simp add: settle_object reports_success_def)
  next
    case 3
    with Decoded show ?thesis by (simp add: settle_other)
  qed
qed (simp_all add: settle_transport)

lemma settle_success:
  assumes "reports_success out"
  shows "\<exists>kvs. out = Decoded (JObj kvs) \<and> searchProperties_settle s out =
      Inr (s\<lparr> properties := or_else (map_of kvs ''properties'') (JArr []),
                   aiResponse := or_else (map_of kvs ''response'') (JStr []),
                   loading := False \<rparr>)"
proof (cases out)
  case (Decoded data)
  show ?thesis
  proof (cases data rule: get_prop_cases)
    case 1
    with Decoded assms show ?thesis by (simp add: reports_success_def)
  next
    case (2 kvs)
    with Decoded assms show ?thesis by (simp add: settle_object reports_success_def)
  next
    case 3
    with Decoded assms show ?thesis by (simp add: reports_success_def)
  qed
qed (use assms in \<open>simp_all add: reports_success_def\<close>)

lemma render_not_loading: "\<not> loading s \<Longrightarrow> render s \<noteq> LoadingView"
  by (simp add: render_def split: option.splits)

lemma settle_total: "\<exists>s'. searchProperties_settle s out = Inr s' \<and> \<not> loading s'"
proof (cases "reports_success out")
  case True
  from settle_success [OF this, of s] show ?thesis by auto
next
  case False
  from settle_failure [OF this, of s] show ?thesis by auto
qed

lemma well_formed_success_settle:
  assumes "well_formed_success data"
  shows "searchProperties_settle s (Decoded data) =
     Inr (s\<lparr> properties := JArr (spec_records data), aiResponse := JStr (spec_answerText data), loading := False \<rparr>)"
proof -
  from assms obtain kvs where d: "data = JObj kvs" 
    by (cases data) (simp_all add: well_formed_success_def)
  from assms d have s: "map_of kvs ''success'' = Some (JBool True)"
    by (simp add: well_formed_success_def)
  from assms d have p: "or_else (map_of kvs ''properties'') (JArr []) = JArr (spec_records data)"
    by (auto simp: well_formed_success_def spec_records_def split: option.splits json.splits)
  from assms d have r: "or_else (map_of kvs ''response'') (JStr []) = JStr (spec_answerText data)"
    by (auto simp: well_formed_success_def spec_answerText_def split: option.splits json.splits)
  show ?thesis by (simp add: d settle_object s p [unfolded d] r [unfolded d])
qed

section \<open>Facts about runs\<close>

lemma begin_keeps: "no_error_while_loading (searchProperties_begin s q)"
  by (simp add: no_error_while_loading_def searchProperties_begin_def)

lemma settle_keeps:
  assumes "no_error_while_loading s" and "searchProperties_settle s out = Inr s'"
  shows "no_error_while_loading s'"
proof (cases "reports_success out")
  case True
  from settle_success [OF this, of s] assms show ?thesis
    by (auto simp: no_error_while_loading_def)
next
  case False
  from settle_failure [OF this, of s] assms show ?thesis
    by (auto simp: no_error_while_loading_def)
qed

lemma step_keeps:
  assumes "no_error_while_loading s"
  shows "no_error_while_loading (step s e)"
proof (cases e)
  case (Change v)
  with assms show ?thesis by (simp add: step_def no_error_while_loading_def)
next
  case Submit
  with assms show ?thesis
    by (simp add: step_def handleSearch_def searchProperties_begin_def no_error_while_loading_def)
next
  case (Settle i out)
  show ?thesis
  proof (cases "i < length (inflight s)")
    case True
    let ?t = "s\<lparr> inflight := remove_nth i (inflight s) \<rparr>"
    have t: "no_error_while_loading ?t"
      using assms by (simp add: no_error_while_loading_def)
    obtain s' where s': "searchProperties_settle ?t out = Inr s'"
      using settle_total [of ?t out] by blast
    from settle_keeps [OF t s'] Settle True s' show ?thesis
      by (simp add: step_def)
  next
    case False
    with Settle assms show ?thesis by (simp add: step_def)
  qed
qed

lemma run_keeps: "no_error_while_loading s \<Longrightarrow> no_error_while_loading (run s es)"
  by (induction es arbitrary: s) (simp_all add: step_keeps)

lemma mount_initial_keeps: "no_error_while_loading (mount (initial_state q0))"
  by (simp add: mount_def initial_state_def searchProperties_begin_def no_error_while_loading_def)

lemma render_Error_iff:
  "no_error_while_loading s \<Longrightarrow> (\<exists>e. render s = ErrorView e) = (error s \<noteq> None)"
  by (auto simp: render_def no_error_while_loading_def split: option.splits)

lemma render_Loading_iff: "(render s = LoadingView) = loading s"
  by (simp add: render_def split: option.splits)

lemma submit_settle:
  assumes "searchQuery s \<noteq> []"
  shows "run s [Submit, Settle (length (inflight s)) out] =
     (case searchProperties_settle
             (s\<lparr> loading := True, error := None, navigated := navigated s @ [searchQuery s] \<rparr>) out of
        Inl err \<Rightarrow> s\<lparr> loading := True, error := None, navigated := navigated s @ [searchQuery s] \<rparr>
      | Inr s' \<Rightarrow> s')"
  using assms
  by (simp add: step_def handleSearch_def searchProperties_begin_def remove_nth_def
      split: sum.splits)

section \<open>The claims\<close>

text \<open>
  Claim C1, as the specification states it: when \<open>submit(q1)\<close> is followed by
  \<open>submit(q2)\<close> before the first call has settled, only the later attempt may change the
  state, in whichever order the two calls settle. The component has no attempt counter
  and no staleness test. In the run below the call for \<open>q2\<close> settles first and the call
  for \<open>q1\<close> after it, both with success: the final state shows the answer and the record
  of \<open>q1\<close>, not those of \<open>q2\<close>.
\<close>

theorem stale_outcome_lands_counterexample:
  "map query (inflight (run (initial_state None)
       [Change ''q1'', Submit, Change ''q2'', Submit])) = [''q1'', ''q2'']
   \<and> render (run (initial_state None)
       [Change ''q1'', Submit, Change ''q2'', Submit,
        Settle 1 (Decoded (JObj [(''success'', JBool True), (''response'', JStr ''two''),
                                 (''properties'', JArr [JObj [(''property_id'', JNum 2)]])])),
        Settle 0 (Decoded (JObj [(''success'', JBool True), (''response'', JStr ''one''),
                                 (''properties'', JArr [JObj [(''property_id'', JNum 1)]])]))])
     = ResultsView (JStr ''one'') (JArr [JObj [(''property_id'', JNum 1)]])
   \<and> ResultsView (JStr ''one'') (JArr [JObj [(''property_id'', JNum 1)]])
     \<noteq> ResultsView (JStr ''two'') (JArr [JObj [(''property_id'', JNum 2)]])"
  by (simp add: initial_state_def step_def handleSearch_def searchProperties_begin_def
      settle_object remove_nth_def render_def)

text \<open>
  Claim C1, amended: every settling call changes the state when it settles, whether or
  not a later search has begun. For two overlapping searches that both settle with a
  well-formed success, the first outcome to arrive is shown at once, and the final
  state holds the result of the call that settled last: that of \<open>q2\<close> when the calls
  settle in the order they were issued, that of \<open>q1\<close> when the call for \<open>q1\<close> settles
  after the call for \<open>q2\<close>.
\<close>

theorem last_settled_wins:
  assumes "q1 \<noteq> []" and "q2 \<noteq> []"
    and "well_formed_success d1" and "well_formed_success d2"
  shows "render (run s [Change q1, Submit, Change q2, Submit,
                        Settle (length (inflight s)) (Decoded d1)])
           = ResultsView (JStr (spec_answerText d1)) (JArr (spec_records d1))
       \<and> render (run s [Change q1, Submit, Change q2, Submit,
                        Settle (length (inflight s)) (Decoded d1),
                        Settle (length (inflight s)) (Decoded d2)])
           = ResultsView (JStr (spec_answerText d2)) (JArr (spec_records d2))
       \<and> render (run s [Change q1, Submit, Change q2, Submit,
                        Settle (Suc (length (inflight s))) (Decoded d2)])
           = ResultsView (JStr (spec_answerText d2)) (JArr (spec_records d2))
       \<and> render (run s [Change q1, Submit, Change q2, Submit,
                        Settle (Suc (length (inflight s))) (Decoded d2),
                        Settle (length (inflight s)) (Decoded d1)])
           = ResultsView (JStr (spec_answerText d1)) (JArr (spec_records d1))"
  using assms(1,2)
  by (simp add: step_def handleSearch_def searchProperties_begin_def remove_nth_def
      well_formed_success_settle [OF assms(3)] well_formed_success_settle [OF assms(4)]
      render_def)

theorem last_settled_wins_witness:
  "render (run (initial_state None)
       [Change ''q1'', Submit, Change ''q2'', Submit,
        Settle 0 (Decoded (JObj [(''success'', JBool True), (''response'', JStr ''one'')])),
        Settle 0 (Decoded (JObj [(''success'', JBool True), (''response'', JStr ''two'')]))])
     = ResultsView (JStr ''two'') (JArr [])
   \<and> render (run (initial_state None)
       [Change ''q1'', Submit, Change ''q2'', Submit,
        Settle 1 (Decoded (JObj [(''success'', JBool True), (''response'', JStr ''two'')])),
        Settle 0 (Decoded (JObj [(''success'', JBool True), (''response'', JStr ''one'')]))])
     = ResultsView (JStr ''one'') (JArr [])"
  using last_settled_wins [of "''q1''" "''q2''"
      "JObj [(''success'', JBool True), (''response'', JStr ''one'')]"
      "JObj [(''success'', JBool True), (''response'', JStr ''two'')]"
      "initial_state None"]
  by (simp add: well_formed_success_def spec_answerText_def spec_records_def initial_state_def)

text \<open>
  Claim C2, as the specification states it: in every reachable state the result is
  present exactly in phase Success and the error reason exactly in phase Error; a
  failure sets the error reason and clears the result. The component keeps the record
  list, the answer, the loading flag and the error in four independent cells, and its
  failure path never writes the first two. After a successful search and then a failed
  one, the component renders the error branch while the record list and the answer of
  the earlier search are still stored.
\<close>

theorem result_present_in_error_counterexample:
  "render (run (mount (initial_state None))
       [Change ''q'', Submit,
        Settle 0 (Decoded (JObj [(''success'', JBool True), (''response'', JStr ''one''),
                                 (''properties'', JArr [JObj [(''property_id'', JNum 1)]])])),
        Submit, Settle 0 Rejected])
     = ErrorView ''Error connecting to the server''
   \<and> properties (run (mount (initial_state None))
       [Change ''q'', Submit,
        Settle 0 (Decoded (JObj [(''success'', JBool True), (''response'', JStr ''one''),
                                 (''properties'', JArr [JObj [(''property_id'', JNum 1)]])])),
        Submit, Settle 0 Rejected])
     = JArr [JObj [(''property_id'', JNum 1)]]
   \<and> aiResponse (run (mount (initial_state None))
       [Change ''q'', Submit,
        Settle 0 (Decoded (JObj [(''success'', JBool True), (''response'', JStr ''one''),
                                 (''properties'', JArr [JObj [(''property_id'', JNum 1)]])])),
        Submit, Settle 0 Rejected])
     = JStr ''one''"
  by (simp add: initial_state_def mount_def step_def handleSearch_def searchProperties_begin_def
      settle_object settle_transport remove_nth_def render_def)

text \<open>
  Claim C2, amended: in every state reachable from the first render by typing,
  submitting and settling calls, an error is never stored while loading, the error is
  present exactly when the component renders the error branch, and the loading branch
  is rendered exactly when the loading flag is set. The stored record list and answer
  are not tied to the phase. A settling call that reports failure sets the error and
  leaves the stored record list and answer as they are; one that reports success leaves
  the error as it is (the error is cleared when a search begins, not when it succeeds).
\<close>

theorem phase_invariant:
  "(let s = run (mount (initial_state q0)) es in
      \<not> (loading s \<and> error s \<noteq> None)
      \<and> (\<exists>e. render s = ErrorView e) = (error s \<noteq> None)
      \<and> (render s = LoadingView) = loading s
      \<and> (\<forall>out. \<exists>s'. searchProperties_settle s out = Inr s'
             \<and> (if reports_success out then error s' = error s
                 else error s' \<noteq> None \<and> properties s' = properties s
                      \<and> aiResponse s' = aiResponse s)))"
proof -
  define s where "s = run (mount (initial_state q0)) es"
  have inv: "no_error_while_loading s"
    unfolding s_def by (rule run_keeps [OF mount_initial_keeps])
  have a: "\<not> (loading s \<and> error s \<noteq> None)"
    using inv by (simp add: no_error_while_loading_def)
  have b: "(\<exists>e. render s = ErrorView e) = (error s \<noteq> None)"
    by (rule render_Error_iff [OF inv])
  have c: "(render s = LoadingView) = loading s"
    by (rule render_Loading_iff)
  have d: "\<exists>s'. searchProperties_settle s out = Inr s'
             \<and> (if reports_success out then error s' = error s
                 else error s' \<noteq> None \<and> properties s' = properties s
                      \<and> aiResponse s' = aiResponse s)" for out
  proof (cases "reports_success out")
    case True
    from settle_success [OF this, of s] True show ?thesis by auto
  next
    case False
    from settle_failure [OF this, of s] False show ?thesis by auto
  qed
  from a b c d show ?thesis
    unfolding s_def [symmetric] Let_def by blast
qed

text \<open>
  Claim C3: a query that is empty after trimming must leave the state unchanged and
  issue no call. The submit handler of PropertySearch tests the text for truthiness,
  not its trimmed form, while the submit handler of AIHomeSearch trims first. For the
  text of one space the trimmed form is empty and AIHomeSearch does nothing, but
  PropertySearch sets the loading flag and issues a call carrying the space.
\<close>

theorem whitespace_query_is_searched:
  "trim '' '' = []
   \<and> AIHomeSearch_handleSearch '' '' [] = []
   \<and> loading (handleSearch ((initial_state None)\<lparr> searchQuery := '' '' \<rparr>))
   \<and> inflight (handleSearch ((initial_state None)\<lparr> searchQuery := '' '' \<rparr>))
       = [\<lparr> query = '' '', top_k = 5 \<rparr>]
   \<and> render (handleSearch ((initial_state None)\<lparr> searchQuery := '' '' \<rparr>)) = LoadingView
   \<and> render ((initial_state None)\<lparr> searchQuery := '' '' \<rparr>) = ResultsView (JStr []) (JArr [])"
  by (simp add: trim_def is_white_space_def AIHomeSearch_handleSearch_def handleSearch_def
      searchProperties_begin_def initial_state_def render_def)

text \<open>
  Claim C4, as the specification states it: for every well-formed response whose
  success indicator is true, the resulting state has phase Success. The success path
  writes the record list and the answer and never the error, and the error is cleared
  only when a search begins. In the run below two searches overlap, the call for \<open>q1\<close>
  settles with a failure reported by the service and the call for \<open>q2\<close> then settles
  with a well-formed success: the component renders the error branch.
\<close>

theorem success_after_overlapping_failure_counterexample:
  "well_formed_success (JObj [(''success'', JBool True), (''response'', JStr ''two''),
                              (''properties'', JArr [JObj [(''property_id'', JNum 2)]])])
   \<and> render (run (initial_state None)
       [Change ''q1'', Submit, Change ''q2'', Submit,
        Settle 0 (Decoded (JObj [(''success'', JBool False)])),
        Settle 0 (Decoded (JObj [(''success'', JBool True), (''response'', JStr ''two''),
                                 (''properties'', JArr [JObj [(''property_id'', JNum 2)]])]))])
     = ErrorView ''Failed to fetch properties''
   \<and> (\<forall>a ps. ErrorView ''Failed to fetch properties'' \<noteq> ResultsView a ps)"
  by (simp add: well_formed_success_def initial_state_def step_def handleSearch_def
      searchProperties_begin_def settle_object remove_nth_def render_def)

text \<open>
  Claim C4, amended: for every well-formed response whose success indicator is true,
  the settling call stores the answer text equal to the response's answer string, the
  empty string when it is absent, and the records equal to the response's property
  list in the same order, the empty list when it is absent; it ends loading and leaves
  the error as it was. The resulting state is in the results branch (phase Success)
  whenever no error is stored when the call settles, as is the case when the call
  settles on the state its own begin left.
\<close>

theorem success_response_stored:
  assumes "well_formed_success data"
  shows "(\<exists>s'. searchProperties_settle (searchProperties_begin s q) (Decoded data) = Inr s'
            \<and> render s' = ResultsView (JStr (spec_answerText data)) (JArr (spec_records data))
            \<and> \<not> loading s' \<and> error s' = None
            \<and> aiResponse s' = JStr (spec_answerText data)
            \<and> properties s' = JArr (spec_records data))
       \<and> (\<exists>t'. searchProperties_settle t (Decoded data) = Inr t'
            \<and> \<not> loading t' \<and> error t' = error t
            \<and> aiResponse t' = JStr (spec_answerText data)
            \<and> properties t' = JArr (spec_records data)
            \<and> (error t = None \<longrightarrow>
                 render t' = ResultsView (JStr (spec_answerText data)) (JArr (spec_records data))))"
  by (simp add: well_formed_success_settle [OF assms] render_def searchProperties_begin_def)

theorem success_response_stored_witness:
  "well_formed_success (JObj [(''success'', JBool True), (''response'', JStr ''Found 3 homes''),
       (''properties'', JArr [JObj [(''property_id'', JNum 1)], JObj [(''property_id'', JNum 2)],
                              JObj [(''property_id'', JNum 3)]])])
   \<and> (\<exists>s'. searchProperties_settle (searchProperties_begin (initial_state None) ''homes'')
         (Decoded (JObj [(''success'', JBool True), (''response'', JStr ''Found 3 homes''),
            (''properties'', JArr [JObj [(''property_id'', JNum 1)], JObj [(''property_id'', JNum 2)],
                                   JObj [(''property_id'', JNum 3)]])])) = Inr s'
        \<and> render s' = ResultsView (JStr ''Found 3 homes'')
            (JArr [JObj [(''property_id'', JNum 1)], JObj [(''property_id'', JNum 2)],
                   JObj [(''property_id'', JNum 3)]]))"
proof -
  let ?D = "JObj [(''success'', JBool True), (''response'', JStr ''Found 3 homes''),
       (''properties'', JArr [JObj [(''property_id'', JNum 1)], JObj [(''property_id'', JNum 2)],
                              JObj [(''property_id'', JNum 3)]])]"
  have wf: "well_formed_success ?D"
    by (simp add: well_formed_success_def)
  from success_response_stored [OF wf, of "initial_state None" "''homes''"]
  obtain s' where
    "searchProperties_settle (searchProperties_begin (initial_state None) ''homes'') (Decoded ?D) = Inr s'"
    and "render s' = ResultsView (JStr (spec_answerText ?D)) (JArr (spec_records ?D))"
    by blast
  moreover have "spec_answerText ?D = ''Found 3 homes''"
    by (simp add: spec_answerText_def)
  moreover have "spec_records ?D = [JObj [(''property_id'', JNum 1)], JObj [(''property_id'', JNum 2)],
                              JObj [(''property_id'', JNum 3)]]"
    by (simp add: spec_records_def)
  ultimately show ?thesis using wf by auto
qed

text \<open>
  Claim C5, as the specification states it: a well-formed response whose success
  indicator is false ends in phase Error with the reason \<open>request failed\<close>. The
  component stores another text.
\<close>

theorem service_failure_reason_counterexample:
  "error (run (initial_state None)
       [Change ''q'', Submit, Settle 0 (Decoded (JObj [(''success'', JBool False)]))])
     = Some ''Failed to fetch properties''
   \<and> error (run (initial_state None)
       [Change ''q'', Submit, Settle 0 (Decoded (JObj [(''success'', JBool False)]))])
     \<noteq> Some ''request failed''"
  by (simp add: initial_state_def step_def handleSearch_def searchProperties_begin_def
      settle_object remove_nth_def)

text \<open>
  Claim C5, amended: for every well-formed response whose success indicator is false,
  a submitted search whose call settles with it ends in the error branch with the
  reason \<open>Failed to fetch properties\<close>, and nothing is retried: the outstanding calls
  are again those from before the submission.
\<close>

theorem service_failure_reported:
  assumes "searchQuery s \<noteq> []" and "map_of kvs ''success'' = Some (JBool False)"
  shows "render (run s [Submit, Settle (length (inflight s)) (Decoded (JObj kvs))])
           = ErrorView ''Failed to fetch properties''
       \<and> error (run s [Submit, Settle (length (inflight s)) (Decoded (JObj kvs))])
           = Some ''Failed to fetch properties''
       \<and> inflight (run s [Submit, Settle (length (inflight s)) (Decoded (JObj kvs))])
           = inflight s"
  using assms
  by (simp add: step_def handleSearch_def searchProperties_begin_def remove_nth_def
      settle_object render_def)

theorem service_failure_reported_witness:
  "render (run ((initial_state None)\<lparr> searchQuery := ''q'' \<rparr>)
       [Submit, Settle 0 (Decoded (JObj [(''success'', JBool False)]))])
     = ErrorView ''Failed to fetch properties''
   \<and> inflight (run ((initial_state None)\<lparr> searchQuery := ''q'' \<rparr>)
       [Submit, Settle 0 (Decoded (JObj [(''success'', JBool False)]))]) = []"
  using service_failure_reported [of "(initial_state None)\<lparr> searchQuery := ''q'' \<rparr>"
      "[(''success'', JBool False)]"]
  by (simp add: initial_state_def)

text \<open>
  Claim C6, as the specification states it: a transport failure ends in phase Error
  with the reason \<open>connection error\<close>. The component stores another text.
\<close>

theorem transport_failure_reason_counterexample:
  "error (run (initial_state None) [Change ''q'', Submit, Settle 0 Rejected])
     = Some ''Error connecting to the server''
   \<and> error (run (initial_state None) [Change ''q'', Submit, Settle 0 Rejected])
     \<noteq> Some ''connection error''"
  by (simp add: initial_state_def step_def handleSearch_def searchProperties_begin_def
      settle_transport remove_nth_def)

text \<open>
  Claim C6, amended: for every transport failure (the call is rejected, or the body
  does not decode), a submitted search ends in the error branch with the reason
  \<open>Error connecting to the server\<close>, nothing is retried, and the reason differs from
  the one stored for a response whose success indicator is false.
\<close>

theorem transport_failure_reported:
  assumes "searchQuery s \<noteq> []" and "out = Rejected \<or> out = Undecodable"
    and "map_of kvs ''success'' = Some (JBool False)"
  shows "render (run s [Submit, Settle (length (inflight s)) out])
           = ErrorView ''Error connecting to the server''
       \<and> error (run s [Submit, Settle (length (inflight s)) out])
           = Some ''Error connecting to the server''
       \<and> inflight (run s [Submit, Settle (length (inflight s)) out]) = inflight s
       \<and> error (run s [Submit, Settle (length (inflight s)) out])
           \<noteq> error (run s [Submit, Settle (length (inflight s)) (Decoded (JObj kvs))])"
  using assms
  by (auto simp: step_def handleSearch_def searchProperties_begin_def remove_nth_def
      settle_object settle_transport render_def)

theorem transport_failure_reported_witness:
  "searchQuery ((initial_state None)\<lparr> searchQuery := ''q'' \<rparr>) \<noteq> []
   \<and> render (run ((initial_state None)\<lparr> searchQuery := ''q'' \<rparr>) [Submit, Settle 0 Undecodable])
       = ErrorView ''Error connecting to the server''
   \<and> error (run ((initial_state None)\<lparr> searchQuery := ''q'' \<rparr>) [Submit, Settle 0 Undecodable])
       \<noteq> error (run ((initial_state None)\<lparr> searchQuery := ''q'' \<rparr>)
            [Submit, Settle 0 (Decoded (JObj [(''success'', JBool False)]))])"
proof -
  let ?s = "(initial_state None)\<lparr> searchQuery := ''q'' \<rparr>"
  have a: "searchQuery ?s \<noteq> []" by simp
  have b: "Undecodable = Rejected \<or> Undecodable = Undecodable" by simp
  have c: "map_of [(''success'', JBool False)] ''success'' = Some (JBool False)" by simp
  have n: "length (inflight ?s) = 0" by (simp add: initial_state_def)
  from transport_failure_reported [OF a b c] a show ?thesis
    unfolding n by blast
qed

text \<open>
  Claim C7, as the specification states it: a record without an identifier is
  excluded from the stored sequence, so every stored record has one. The component
  stores the property list of the response as it came. Here the only record has a
  price and no identifier, and it is stored.
\<close>

theorem record_without_identifier_counterexample:
  "properties (run (initial_state None)
       [Change ''q'', Submit,
        Settle 0 (Decoded (JObj [(''success'', JBool True),
                                 (''properties'', JArr [JObj [(''price'', JNum 1)]])]))])
     = JArr [JObj [(''price'', JNum 1)]]
   \<and> \<not> has_identifier (JObj [(''price'', JNum 1)])"
  by (simp add: initial_state_def step_def handleSearch_def searchProperties_begin_def
      settle_object remove_nth_def has_identifier_def)

text \<open>
  Claim C7, amended: for every response that reports success and carries a property
  list, the stored record sequence is that list as it is: each record is kept in its
  place, with or without an identifier, with or without any other field, and no record
  makes the search fail or stores an error.
\<close>

theorem records_stored_verbatim:
  assumes "map_of kvs ''success'' = Some (JBool True)"
    and "map_of kvs ''properties'' = Some (JArr ps)"
  shows "\<exists>s'. searchProperties_settle s (Decoded (JObj kvs)) = Inr s'
            \<and> properties s' = JArr ps \<and> error s' = error s \<and> \<not> loading s'"
  using assms by (simp add: settle_object)

theorem records_stored_verbatim_witness:
  "\<exists>s'. searchProperties_settle (initial_state None)
          (Decoded (JObj [(''success'', JBool True),
             (''properties'', JArr [JObj [(''price'', JNum 1)], JObj [(''property_id'', JNum 7)],
                                    JObj [(''property_id'', JNum 7)]])])) = Inr s'
       \<and> properties s' = JArr [JObj [(''price'', JNum 1)], JObj [(''property_id'', JNum 7)],
                                JObj [(''property_id'', JNum 7)]]"
  using records_stored_verbatim [of "[(''success'', JBool True),
             (''properties'', JArr [JObj [(''price'', JNum 1)], JObj [(''property_id'', JNum 7)],
                                    JObj [(''property_id'', JNum 7)]])]"
      "[JObj [(''price'', JNum 1)], JObj [(''property_id'', JNum 7)],
        JObj [(''property_id'', JNum 7)]]" "initial_state None"]
  by auto

text \<open>
  Claim C8: for every query that is not empty after trimming, submitting it sets the
  loading flag at once, before the call settles, so the loading branch is rendered,
  and the call issued carries the query and the positive result count 5. The same holds
  for the search started by the first render from the query in the address.
\<close>

theorem submit_starts_loading:
  assumes "trim q \<noteq> []"
  shows "loading (handleSearch (s\<lparr> searchQuery := q \<rparr>))
       \<and> render (handleSearch (s\<lparr> searchQuery := q \<rparr>)) = LoadingView
       \<and> inflight (handleSearch (s\<lparr> searchQuery := q \<rparr>))
           = inflight s @ [\<lparr> query = q, top_k = 5 \<rparr>]
       \<and> 0 < top_k (last (inflight (handleSearch (s\<lparr> searchQuery := q \<rparr>))))
       \<and> render (mount (initial_state (Some q))) = LoadingView
       \<and> inflight (mount (initial_state (Some q))) = [\<lparr> query = q, top_k = 5 \<rparr>]"
proof -
  from assms have "q \<noteq> []" using trim_Nil by auto
  then show ?thesis
    by (simp add: handleSearch_def mount_def initial_state_def searchProperties_begin_def
        render_def)
qed

theorem submit_starts_loading_witness:
  "trim '' 3BHK homes in Victoria '' = ''3BHK homes in Victoria''
   \<and> render (handleSearch ((initial_state None)\<lparr> searchQuery := '' 3BHK homes in Victoria '' \<rparr>))
       = LoadingView
   \<and> inflight (handleSearch ((initial_state None)\<lparr> searchQuery := '' 3BHK homes in Victoria '' \<rparr>))
       = [\<lparr> query = '' 3BHK homes in Victoria '', top_k = 5 \<rparr>]"
proof -
  have t: "trim '' 3BHK homes in Victoria '' = ''3BHK homes in Victoria''"
    by (simp add: trim_def is_white_space_def)
  then have "trim '' 3BHK homes in Victoria '' \<noteq> []" by simp
  from submit_starts_loading [OF this, of "initial_state None"] t show ?thesis
    by (simp add: initial_state_def)
qed

text \<open>
  Claim C9: whatever the outcome of the call (success, a failure reported by the
  service, a transport failure, a malformed body such as \<^verbatim>\<open>null\<close>), the continuation of
  the search ends without an exception, in a state, and that state is not loading.
\<close>

theorem settle_never_throws:
  "\<exists>s'. searchProperties_settle s out = Inr s' \<and> \<not> loading s' \<and> render s' \<noteq> LoadingView"
  using settle_total [of s out] render_not_loading by blast

text \<open>
  Claim C10: a search that ends in failure, whether the service reports it or the
  transport fails, leaves the stored record list and answer of the last successful
  search as they were. Over the whole invocation, from the submission to the settling
  of its call, only the error and the loading flag of the component's cells change
  (the submit handler also records its navigation); the same holds for
  \<^verbatim>\<open>searchProperties\<close> called with any query, and for the continuation alone.
\<close>

theorem failure_keeps_result:
  assumes "searchQuery s \<noteq> []" and "\<not> reports_success out"
  shows "properties (run s [Submit, Settle (length (inflight s)) out]) = properties s
       \<and> aiResponse (run s [Submit, Settle (length (inflight s)) out]) = aiResponse s
       \<and> error (run s [Submit, Settle (length (inflight s)) out]) \<noteq> None
       \<and> \<not> loading (run s [Submit, Settle (length (inflight s)) out])
       \<and> run s [Submit, Settle (length (inflight s)) out]
           = s\<lparr> loading := False,
                error := error (run s [Submit, Settle (length (inflight s)) out]),
                navigated := navigated s @ [searchQuery s] \<rparr>
       \<and> (\<exists>s'. searchProperties_settle (searchProperties_begin s q) out = Inr s'
            \<and> s' = (searchProperties_begin s q)\<lparr> error := error s', loading := False \<rparr>
            \<and> error s' \<noteq> None
            \<and> properties s' = properties s \<and> aiResponse s' = aiResponse s)
       \<and> (\<exists>s'. searchProperties_settle s out = Inr s'
            \<and> s' = s\<lparr> error := error s', loading := False \<rparr>
            \<and> error s' \<noteq> None
            \<and> properties s' = properties s \<and> aiResponse s' = aiResponse s)"
proof -
  let ?b = "s\<lparr> loading := True, error := None, navigated := navigated s @ [searchQuery s] \<rparr>"
  have whole: "properties (run s [Submit, Settle (length (inflight s)) out]) = properties s
       \<and> aiResponse (run s [Submit, Settle (length (inflight s)) out]) = aiResponse s
       \<and> error (run s [Submit, Settle (length (inflight s)) out]) \<noteq> None
       \<and> \<not> loading (run s [Submit, Settle (length (inflight s)) out])
       \<and> run s [Submit, Settle (length (inflight s)) out]
           = s\<lparr> loading := False,
                error := error (run s [Submit, Settle (length (inflight s)) out]),
                navigated := navigated s @ [searchQuery s] \<rparr>"
  proof -
    from settle_failure [OF assms(2), of ?b] obtain e where
      e: "searchProperties_settle ?b out = Inr (?b\<lparr> error := Some e, loading := False \<rparr>)"
      by blast
    have run_eq: "run s [Submit, Settle (length (inflight s)) out]
                    = ?b\<lparr> error := Some e, loading := False \<rparr>"
      unfolding submit_settle [OF assms(1)] e by simp
    show ?thesis unfolding run_eq by simp
  qed
  have inv: "\<exists>s'. searchProperties_settle (searchProperties_begin s q) out = Inr s'
            \<and> s' = (searchProperties_begin s q)\<lparr> error := error s', loading := False \<rparr>
            \<and> error s' \<noteq> None
            \<and> properties s' = properties s \<and> aiResponse s' = aiResponse s"
    using settle_failure [OF assms(2), of "searchProperties_begin s q"]
    by (auto simp: searchProperties_begin_def)
  have cont: "\<exists>s'. searchProperties_settle s out = Inr s'
            \<and> s' = s\<lparr> error := error s', loading := False \<rparr>
            \<and> error s' \<noteq> None
            \<and> properties s' = properties s \<and> aiResponse s' = aiResponse s"
    using settle_failure [OF assms(2), of s] by auto
  from whole inv cont show ?thesis by blast
qed

theorem failure_keeps_result_witness:
  "searchQuery ((initial_state (Some ''q''))\<lparr> properties := JArr [JObj [(''property_id'', JNum 1)]],
                                               aiResponse := JStr ''one'' \<rparr>) \<noteq> []
   \<and> \<not> reports_success Rejected
   \<and> properties (run ((initial_state (Some ''q''))\<lparr> properties := JArr [JObj [(''property_id'', JNum 1)]],
                                                     aiResponse := JStr ''one'' \<rparr>)
                    [Submit, Settle 0 Rejected])
       = JArr [JObj [(''property_id'', JNum 1)]]
   \<and> aiResponse (run ((initial_state (Some ''q''))\<lparr> properties := JArr [JObj [(''property_id'', JNum 1)]],
                                                     aiResponse := JStr ''one'' \<rparr>)
                    [Submit, Settle 0 Rejected])
       = JStr ''one''"
proof -
  let ?s = "(initial_state (Some ''q''))\<lparr> properties := JArr [JObj [(''property_id'', JNum 1)]],
                                          aiResponse := JStr ''one'' \<rparr>"
  have a: "searchQuery ?s \<noteq> []" by (simp add: initial_state_def)
  have f: "\<not> reports_success Rejected" by (simp add: reports_success_def)
  have n: "length (inflight ?s) = 0" by (simp add: initial_state_def)
  have p: "properties ?s = JArr [JObj [(''property_id'', JNum 1)]]" by simp
  have r: "aiResponse ?s = JStr ''one''" by simp
  from failure_keeps_result [OF a f, of "''q''"] a f show ?thesis
    unfolding n p r by blast
qed

end
